theory Spec2Isabelle
  imports Main
begin

section \<open>Exceptions and Python's \<open>repr\<close>\<close>

text \<open>
  Every exception the source raises is a value; a function that can raise returns
  \<open>error + 'a\<close> with the exception on the left. \<open>ValueError\<close> carries its message.
  \<open>FileNotFoundError\<close> carries the path that was asked for: its message is
  \<open>Metadata file not found: \<close> followed by the text of \<open>Path(path)\<close>, which is left to
  \<open>pathlib\<close>. \<open>TypeError\<close> and \<open>AttributeError\<close> are the exceptions of the interpreter
  for iterating over a value that is not iterable and for calling \<open>get\<close> on a value that
  is not a dict.
\<close>

datatype error =
    FileNotFoundError string
  | ValueError string
  | TypeError
  | AttributeError

text \<open>
  \<open>repr\<close> of a \<open>str\<close>, which the f-string of the error message of
  \<open>generate_comparison_selects\<close> applies to each column name when it formats a list:
  single quotes unless the string has a single quote and no double quote; the quote
  character and the backslash are escaped, tab, newline and carriage return are written
  \<open>\t\<close>, \<open>\n\<close>, \<open>\r\<close>, every other unprintable code point as \<open>\xNN\<close>. Strings are
  lists of characters; a character stands for one code point below 256.
\<close>

definition hex_digit :: "nat \<Rightarrow> char" where
  "hex_digit n = ''0123456789abcdef'' ! (n mod 16)"

definition py_printable :: "char \<Rightarrow> bool" where
  "py_printable c =
     (let n = (of_char c :: nat)
      in (32 \<le> n \<and> n < 127) \<or> (161 \<le> n \<and> n \<noteq> 173))"

definition repr_char :: "char \<Rightarrow> char \<Rightarrow> string" where
  "repr_char quote c =
     (if c = quote \<or> c = CHR 0x5C then [CHR 0x5C, c]
      else if c = CHR 0x09 then [CHR 0x5C, CHR ''t'']
      else if c = CHR 0x0A then [CHR 0x5C, CHR ''n'']
      else if c = CHR 0x0D then [CHR 0x5C, CHR ''r'']
      else if py_printable c then [c]
      else [CHR 0x5C, CHR ''x'',
            hex_digit ((of_char c :: nat) div 16), hex_digit ((of_char c :: nat) mod 16)])"

definition repr_str :: "string \<Rightarrow> string" where
  "repr_str s =
     (let quote = (if CHR 0x27 \<in> set s \<and> CHR 0x22 \<notin> set s then CHR 0x22 else CHR 0x27)
      in [quote] @ concat (map (repr_char quote) s) @ [quote])"

text \<open>\<open>sep.join(xs)\<close>\<close>

fun join :: "string \<Rightarrow> string list \<Rightarrow> string" where
  "join sep [] = []"
| "join sep [x] = x"
| "join sep (x # y # ys) = x @ sep @ join sep (y # ys)"

text \<open>\<open>repr\<close> of a list of strings.\<close>

definition repr_list :: "string list \<Rightarrow> string" where
  "repr_list xs = ''['' @ join '', '' (map repr_str xs) @ '']''"

section \<open>Values read from JSON\<close>

text \<open>
  A parsed JSON document, as \<open>json.loads\<close> returns it. An object is the association
  list of its dict in insertion order, with distinct keys; \<open>JNull\<close> is Python's
  \<open>None\<close>. Numbers are integers.
\<close>

datatype json =
    JNull
  | JBool bool
  | JNum int
  | JStr string
  | JArr "json list"
  | JObj "(string \<times> json) list"

type_synonym dict = "(string \<times> json) list"

text \<open>
  Python truthiness, and \<open>a or b\<close>, which is \<open>a\<close> when \<open>a\<close> is truthy and \<open>b\<close>
  otherwise.
\<close>

fun truthy :: "json \<Rightarrow> bool" where
  "truthy JNull = False"
| "truthy (JBool b) = b"
| "truthy (JNum n) = (n \<noteq> 0)"
| "truthy (JStr s) = (s \<noteq> [])"
| "truthy (JArr xs) = (xs \<noteq> [])"
| "truthy (JObj kvs) = (kvs \<noteq> [])"

definition por :: "json \<Rightarrow> json \<Rightarrow> json" where
  "por a b = (if truthy a then a else b)"

text \<open>
  \<open>k in d\<close>, \<open>d.get(k, default)\<close> and \<open>d.get(k)\<close>, which is \<open>None\<close> for a missing key.
\<close>

definition has_key :: "dict \<Rightarrow> string \<Rightarrow> bool" where
  "has_key d k = (map_of d k \<noteq> None)"

definition get_default :: "dict \<Rightarrow> string \<Rightarrow> json \<Rightarrow> json" where
  "get_default d k dflt = (case map_of d k of None \<Rightarrow> dflt | Some v \<Rightarrow> v)"

definition get :: "dict \<Rightarrow> string \<Rightarrow> json" where
  "get d k = get_default d k JNull"

text \<open>
  \<open>str(v)\<close>, which an f-string also applies to a value it formats: a string is itself,
  every other value is printed as \<open>repr\<close> prints it.
\<close>

fun show_nat :: "nat \<Rightarrow> string" where
  "show_nat n =
     (if n < 10 then [''0123456789'' ! n]
      else show_nat (n div 10) @ [''0123456789'' ! (n mod 10)])"

definition show_int :: "int \<Rightarrow> string" where
  "show_int i = (if i < 0 then ''-'' @ show_nat (nat (- i)) else show_nat (nat i))"

fun py_repr :: "json \<Rightarrow> string" where
  "py_repr JNull = ''None''"
| "py_repr (JBool b) = (if b then ''True'' else ''False'')"
| "py_repr (JNum n) = show_int n"
| "py_repr (JStr s) = repr_str s"
| "py_repr (JArr xs) = ''['' @ join '', '' (map py_repr xs) @ '']''"
| "py_repr (JObj kvs) =
     ''{'' @ join '', '' (map (\<lambda>(k, v). repr_str k @ '': '' @ py_repr v) kvs) @ ''}''"

fun py_str :: "json \<Rightarrow> string" where
  "py_str (JStr s) = s"
| "py_str v = py_repr v"

text \<open>
  \<open>str.strip()\<close> removes the leading and trailing code points for which
  \<open>str.isspace\<close> holds.
\<close>

definition py_isspace :: "char \<Rightarrow> bool" where
  "py_isspace c =
     (let n = (of_char c :: nat)
      in (9 \<le> n \<and> n \<le> 13) \<or> (28 \<le> n \<and> n \<le> 32) \<or> n = 133 \<or> n = 160)"

definition strip :: "string \<Rightarrow> string" where
  "strip s = rev (dropWhile py_isspace (rev (dropWhile py_isspace s)))"

text \<open>
  Iterating over a value in a comprehension: a list gives its elements, a string its
  characters, a dict its keys; any other value raises \<open>TypeError\<close>. \<open>map_err\<close> is a
  list comprehension whose element expression can raise: the first exception ends it.
\<close>

fun iter :: "json \<Rightarrow> error + json list" where
  "iter (JArr xs) = Inr xs"
| "iter (JStr s) = Inr (map (\<lambda>c. JStr [c]) s)"
| "iter (JObj kvs) = Inr (map (\<lambda>kv. JStr (fst kv)) kvs)"
| "iter v = Inl TypeError"

fun map_err :: "('a \<Rightarrow> error + 'b) \<Rightarrow> 'a list \<Rightarrow> error + 'b list" where
  "map_err f [] = Inr []"
| "map_err f (x # xs) =
     (case f x of
        Inl e \<Rightarrow> Inl e
      | Inr y \<Rightarrow> (case map_err f xs of Inl e \<Rightarrow> Inl e | Inr ys \<Rightarrow> Inr (y # ys)))"

section \<open>Table metadata (metadata.py)\<close>

text \<open>
  The two dataclasses, with the values their fields hold at run time. \<open>name\<close> and
  \<open>table_name\<close> are strings and \<open>is_primary_key\<close> is a boolean: the loader passes them
  through \<open>str\<close> and \<open>bool\<close>. The loader stores \<open>data_type\<close>, \<open>nullable\<close>,
  \<open>schema_name\<close> and \<open>primary_key_columns\<close> as the document gives them, so these fields
  hold any value. A field of its annotated type \<open>str | None\<close> holds \<open>JNull\<close> or a
  \<open>JStr\<close>, one of type \<open>list[str] | None\<close> holds \<open>JNull\<close> or a \<open>JArr\<close> of \<open>JStr\<close>.
\<close>

record ColumnMetadata =
  name :: string
  data_type :: json
  nullable :: json
  is_primary_key :: bool

record TableMetadata =
  table_name :: string
  schema_name :: json
  columns :: "ColumnMetadata list"
  primary_key_columns :: json

text \<open>\<open>TableMetadata.column_names\<close>\<close>

definition column_names :: "TableMetadata \<Rightarrow> string list" where
  "column_names t = map name (columns t)"

text \<open>\<open>TableMetadata.qualified_name\<close>\<close>

definition qualified_name :: "TableMetadata \<Rightarrow> string" where
  "qualified_name t =
     (if truthy (schema_name t)
      then py_str (schema_name t) @ ''.'' @ table_name t
      else table_name t)"

text \<open>
  \<open>TableMetadata.key_columns\<close>. The comprehension over \<open>primary_key_columns\<close> keeps the
  elements that are equal to a column name, which are strings; it raises \<open>TypeError\<close>
  when \<open>primary_key_columns\<close> is truthy and not iterable.
\<close>

definition key_columns :: "TableMetadata \<Rightarrow> error + string list" where
  "key_columns t =
     (if truthy (primary_key_columns t)
      then (case iter (primary_key_columns t) of
              Inl e \<Rightarrow> Inl e
            | Inr cs \<Rightarrow> Inr [c. JStr c \<leftarrow> cs, c \<in> set (column_names t)])
      else
        (let pk_from_cols = map name [c \<leftarrow> columns t. is_primary_key c] in
         if pk_from_cols \<noteq> [] then Inr pk_from_cols
         else if column_names t \<noteq> [] then Inr (take 1 (column_names t)) else Inr []))"

section \<open>Loading metadata from JSON (metadata.py)\<close>

text \<open>
  \<open>ColumnMetadata.from_dict\<close>. A value without the method \<open>get\<close> (anything but a
  dict) raises \<open>AttributeError\<close>.
\<close>

definition ColumnMetadata_from_dict :: "json \<Rightarrow> error + ColumnMetadata" where
  "ColumnMetadata_from_dict c =
     (case c of
        JObj d \<Rightarrow>
          (let nm = por (get d ''name'') (get d ''column_name'')
           in if \<not> truthy nm
              then Inl (ValueError (''Column must have 'name' or 'column_name'' @ [CHR 0x27]))
              else Inr \<lparr>name = strip (py_str nm),
                        data_type = por (get d ''data_type'') (get d ''type''),
                        nullable = get_default d ''nullable'' (JBool True),
                        is_primary_key =
                          truthy (get_default d ''is_primary_key'' (JBool False))\<rparr>)
      | _ \<Rightarrow> Inl AttributeError)"

text \<open>\<open>TableMetadata.from_dict\<close>\<close>

definition TableMetadata_from_dict :: "dict \<Rightarrow> error + TableMetadata" where
  "TableMetadata_from_dict d =
     (let tn = por (por (get d ''table_name'') (get d ''table'')) (get d ''name'')
      in if \<not> truthy tn
         then Inl (ValueError (''Table must have 'table_name', 'table', or 'name'' @ [CHR 0x27]))
         else
           (let cols0 = get_default d ''columns'' (JArr []);
                cols = (if \<not> truthy cols0 \<and> has_key d ''column_names''
                        then (case iter (get d ''column_names'') of
                                Inl e \<Rightarrow> Inl e
                              | Inr ns \<Rightarrow> Inr (map (\<lambda>n. JObj [(''name'', n)]) ns))
                        else iter cols0)
            in case cols of
                 Inl e \<Rightarrow> Inl e
               | Inr cs \<Rightarrow>
                   (case map_err ColumnMetadata_from_dict cs of
                      Inl e \<Rightarrow> Inl e
                    | Inr cms \<Rightarrow>
                        Inr \<lparr>table_name = strip (py_str tn),
                             schema_name = por (get d ''schema_name'') (get d ''schema''),
                             columns = cms,
                             primary_key_columns =
                               por (get d ''primary_key'') (get d ''primary_key_columns'')\<rparr>)))"

text \<open>\<open>sub in s\<close> for two strings.\<close>

fun starts_with :: "string \<Rightarrow> string \<Rightarrow> bool" where
  "starts_with [] s = True"
| "starts_with (p # ps) [] = False"
| "starts_with (p # ps) (c # cs) = (p = c \<and> starts_with ps cs)"

fun contains :: "string \<Rightarrow> string \<Rightarrow> bool" where
  "contains sub [] = (sub = [])"
| "contains sub (c # cs) = (starts_with sub (c # cs) \<or> contains sub cs)"

text \<open>
  \<open>TableMetadata.load\<close> from the parsed document on: the part after \<open>json.loads\<close>.
\<close>

definition load_document :: "json \<Rightarrow> error + TableMetadata" where
  "load_document data =
     (case data of
        JArr xs \<Rightarrow> TableMetadata_from_dict [(''table_name'', JStr ''table''), (''columns'', JArr xs)]
      | JObj d \<Rightarrow>
          (if \<not> has_key d ''columns'' \<and> \<not> has_key d ''column_names''
           then Inl (ValueError (''Metadata must contain 'columns' or 'column_names'' @ [CHR 0x27]))
           else TableMetadata_from_dict d)
      | JStr s \<Rightarrow>
          (if \<not> contains ''columns'' s \<and> \<not> contains ''column_names'' s
           then Inl (ValueError (''Metadata must contain 'columns' or 'column_names'' @ [CHR 0x27]))
           else Inl AttributeError)
      | _ \<Rightarrow> Inl TypeError)"

text \<open>
  \<open>TableMetadata.load\<close>. The files are a partial map from a path to the document the
  file's text parses to; reading the bytes and parsing them are not modelled.
\<close>

definition TableMetadata_load :: "(string \<Rightarrow> json option) \<Rightarrow> string \<Rightarrow> error + TableMetadata" where
  "TableMetadata_load files path =
     (case files path of
        None \<Rightarrow> Inl (FileNotFoundError path)
      | Some data \<Rightarrow> load_document data)"

section \<open>Column alignment (comparison_agent.py)\<close>

definition align_columns :: "TableMetadata \<Rightarrow> TableMetadata \<Rightarrow> bool \<Rightarrow> string list" where
  "align_columns source target use_intersection =
     (let src_names = set (column_names source);
          tgt_names = set (column_names target)
      in if use_intersection
         then (let common = src_names \<inter> tgt_names
               in [c \<leftarrow> column_names source. c \<in> common])
         else column_names source)"

section \<open>Identifier quoting and the SELECT renderer (comparison_agent.py)\<close>

definition quote_identifier :: "string \<Rightarrow> string \<Rightarrow> string" where
  "quote_identifier nm dialect =
     (if dialect = ''ansi'' \<or> dialect = ''ansi_quoted''
      then (if dialect = ''ansi_quoted'' then [CHR 0x22] @ nm @ [CHR 0x22] else nm)
      else if dialect = ''sqlserver'' \<or> dialect = ''mssql'' then ''['' @ nm @ '']''
      else if dialect = ''mysql'' then [CHR 0x60] @ nm @ [CHR 0x60]
      else nm)"

text \<open>The local function \<open>quote\<close> of \<open>build_select\<close>.\<close>

definition quote :: "bool \<Rightarrow> string \<Rightarrow> string \<Rightarrow> string" where
  "quote use_quoted_identifiers dialect c =
     (if use_quoted_identifiers then quote_identifier c ''ansi_quoted''
      else quote_identifier c dialect)"

text \<open>
  Python truthiness of the argument \<open>order_by_columns: list[str] | None\<close>, which
  \<open>generate_comparison_selects\<close> passes as \<open>None\<close> or as a list of strings.
\<close>

fun truthy_opt :: "'a list option \<Rightarrow> bool" where
  "truthy_opt None = False"
| "truthy_opt (Some xs) = (xs \<noteq> [])"

definition build_select ::
  "TableMetadata \<Rightarrow> string list \<Rightarrow> string list option \<Rightarrow> string \<Rightarrow> bool \<Rightarrow> string" where
  "build_select table cols order_by_columns dialect use_quoted_identifiers =
     (let qualified =
            (if use_quoted_identifiers \<and> truthy (schema_name table)
             then [CHR 0x22] @ py_str (schema_name table) @ [CHR 0x22] @ ''.''
                  @ [CHR 0x22] @ table_name table @ [CHR 0x22]
             else if dialect = ''sqlserver'' \<and> truthy (schema_name table)
             then ''['' @ py_str (schema_name table) @ ''].['' @ table_name table @ '']''
             else qualified_name table);
          select_list = join '', '' (map (quote use_quoted_identifiers dialect) cols);
          sql = ''SELECT '' @ select_list @ [CHR 0x0A] @ ''FROM '' @ qualified
      in if truthy_opt order_by_columns
         then (let order_list =
                     join '', '' (map (quote use_quoted_identifiers dialect)
                                     (the order_by_columns))
               in sql @ [CHR 0x0A] @ ''ORDER BY '' @ order_list)
         else sql)"

section \<open>The comparison orchestrator (comparison_agent.py)\<close>

text \<open>
  The value of \<open>order_cols\<close> in \<open>generate_comparison_selects\<close>, for the aligned column
  list \<open>cols\<close>: \<open>None\<close> unless ordering by keys is requested. Both \<open>key_columns\<close>
  properties are read, the source's first, before the key list is chosen, so either can
  raise.
\<close>

definition order_cols ::
  "TableMetadata \<Rightarrow> TableMetadata \<Rightarrow> string list \<Rightarrow> bool \<Rightarrow> error + string list option" where
  "order_cols source_metadata target_metadata cols order_by_keys =
     (if order_by_keys
      then (case key_columns source_metadata of
              Inl e \<Rightarrow> Inl e
            | Inr src_keys \<Rightarrow>
                (case key_columns target_metadata of
                   Inl e \<Rightarrow> Inl e
                 | Inr tgt_keys \<Rightarrow>
                     (let oc = [k \<leftarrow> (if src_keys \<noteq> [] then src_keys else tgt_keys).
                                 k \<in> set cols]
                      in if oc = [] \<and> cols \<noteq> [] then Inr (Some (take 1 cols))
                         else Inr (Some oc))))
      else Inr None)"

definition generate_comparison_selects ::
  "TableMetadata \<Rightarrow> TableMetadata \<Rightarrow> bool \<Rightarrow> bool \<Rightarrow> string \<Rightarrow> bool
     \<Rightarrow> error + (string \<times> string)" where
  "generate_comparison_selects source_metadata target_metadata use_intersection
       order_by_keys dialect use_quoted_identifiers =
     (let cols = align_columns source_metadata target_metadata use_intersection
      in if cols = []
         then Inl (ValueError
                (''No common columns between source and target. ''
                 @ ''Source: '' @ repr_list (column_names source_metadata)
                 @ '', Target: '' @ repr_list (column_names target_metadata)))
         else
           (case order_cols source_metadata target_metadata cols order_by_keys of
              Inl e \<Rightarrow> Inl e
            | Inr oc \<Rightarrow>
                (let source_sql = build_select source_metadata cols oc dialect
                                    use_quoted_identifiers;
                     target_sql = build_select target_metadata cols oc dialect
                                    use_quoted_identifiers
                 in Inr (source_sql, target_sql))))"

text \<open>
  Names for the pieces of text that \<open>build_select\<close> assembles, used to state what a
  rendered statement consists of: the SELECT line, the ORDER BY suffix (empty when there
  is nothing to order by), and the table reference after \<open>FROM\<close>.
\<close>

definition select_line :: "string list \<Rightarrow> string \<Rightarrow> bool \<Rightarrow> string" where
  "select_line cols dialect use_quoted_identifiers =
     ''SELECT '' @ join '', '' (map (quote use_quoted_identifiers dialect) cols)"

definition order_by_suffix :: "string list option \<Rightarrow> string \<Rightarrow> bool \<Rightarrow> string" where
  "order_by_suffix order_by_columns dialect use_quoted_identifiers =
     (if truthy_opt order_by_columns
      then [CHR 0x0A] @ ''ORDER BY ''
           @ join '', '' (map (quote use_quoted_identifiers dialect) (the order_by_columns))
      else [])"

text \<open>The value of the local \<open>qualified\<close> of \<open>build_select\<close>.\<close>

definition table_reference :: "TableMetadata \<Rightarrow> string \<Rightarrow> bool \<Rightarrow> string" where
  "table_reference table dialect use_quoted_identifiers =
     (if use_quoted_identifiers \<and> truthy (schema_name table)
      then [CHR 0x22] @ py_str (schema_name table) @ [CHR 0x22] @ ''.''
           @ [CHR 0x22] @ table_name table @ [CHR 0x22]
      else if dialect = ''sqlserver'' \<and> truthy (schema_name table)
      then ''['' @ py_str (schema_name table) @ ''].['' @ table_name table @ '']''
      else qualified_name table)"

text \<open>
  Whether reading \<open>key_columns\<close> can raise: it does when \<open>primary_key_columns\<close> is a
  non-zero number or \<open>True\<close>, the truthy values that are not iterable.
\<close>

fun keys_readable :: "json \<Rightarrow> bool" where
  "keys_readable (JNum n) = (n = 0)"
| "keys_readable (JBool b) = (\<not> b)"
| "keys_readable v = True"

section \<open>Example tables\<close>

text \<open>
  The scenario of the specification: a source table \<open>sales.orders\<close> with the columns
  \<open>id\<close> (flagged as primary key), \<open>name\<close> and \<open>email\<close>, and a target table
  \<open>orders_copy\<close> without schema with the columns \<open>id\<close> and \<open>name\<close>.
\<close>

definition column :: "string \<Rightarrow> bool \<Rightarrow> ColumnMetadata" where
  "column n pk = \<lparr>name = n, data_type = JNull, nullable = JBool True, is_primary_key = pk\<rparr>"

definition example_source :: TableMetadata where
  "example_source =
     \<lparr>table_name = ''orders'', schema_name = JStr ''sales'',
      columns = [column ''id'' True, column ''name'' False, column ''email'' False],
      primary_key_columns = JNull\<rparr>"

definition example_target :: TableMetadata where
  "example_target =
     \<lparr>table_name = ''orders_copy'', schema_name = JNull,
      columns = [column ''id'' False, column ''name'' False],
      primary_key_columns = JNull\<rparr>"

section \<open>Properties\<close>

subsection \<open>Column alignment\<close>

text \<open>
  C1. With \<open>use_intersection\<close> set, \<open>align_columns\<close> returns the source's column names in
  the source's order, keeping exactly those that are equal, as strings, to one of the
  target's column names. With \<open>use_intersection\<close> unset it returns the source's column
  names unchanged, whatever the target is.
\<close>

theorem align_columns_spec:
  "align_columns source target True
     = filter (\<lambda>c. c \<in> set (column_names target)) (column_names source)
   \<and> align_columns source target False = column_names source
   \<and> align_columns source target' False = align_columns source target False
   \<and> length (align_columns source target False) = length (columns source)"
proof -
  have "filter (\<lambda>c. c \<in> set (column_names source) \<inter> set (column_names target))
          (column_names source)
        = filter (\<lambda>c. c \<in> set (column_names target)) (column_names source)"
    by (rule filter_cong) auto
  then show ?thesis
    by (simp add: align_columns_def column_names_def)
qed

subsection \<open>What a rendered statement consists of\<close>

lemma build_select_parts:
  "build_select table cols oc dialect q =
     select_line cols dialect q @ [CHR 0x0A] @ ''FROM '' @ table_reference table dialect q
       @ order_by_suffix oc dialect q"
  by (simp add: build_select_def select_line_def table_reference_def order_by_suffix_def
      Let_def)

lemma generate_success:
  assumes "generate_comparison_selects s t ui ob d q = Inr (a, b)"
  shows "align_columns s t ui \<noteq> []"
    and "\<exists>oc. order_cols s t (align_columns s t ui) ob = Inr oc
             \<and> a = build_select s (align_columns s t ui) oc d q
             \<and> b = build_select t (align_columns s t ui) oc d q"
  using assms
  by (auto simp add: generate_comparison_selects_def Let_def split: if_splits sum.splits)

lemma names_among_strings:
  "[c. JStr c \<leftarrow> map JStr ys, c \<in> set ns] = filter (\<lambda>c. c \<in> set ns) ys"
  by (induction ys) simp_all

lemma key_columns_raises:
  "isl (key_columns t) \<longleftrightarrow> \<not> keys_readable (primary_key_columns t)"
  by (cases "primary_key_columns t") (simp_all add: key_columns_def Let_def)

lemma key_columns_error:
  "key_columns t = Inl e \<Longrightarrow> e = TypeError"
  by (cases "primary_key_columns t")
     (simp_all add: key_columns_def Let_def split: if_splits)

lemmas example_defs =
  example_source_def example_target_def column_def generate_comparison_selects_def
  align_columns_def column_names_def order_cols_def key_columns_def build_select_def
  qualified_name_def quote_def quote_identifier_def select_line_def order_by_suffix_def
  table_reference_def Let_def

lemma example_run:
  "generate_comparison_selects example_source example_target True True ''ansi'' False =
     Inr (''SELECT id, name'' @ [CHR 0x0A] @ ''FROM sales.orders'' @ [CHR 0x0A]
            @ ''ORDER BY id'',
          ''SELECT id, name'' @ [CHR 0x0A] @ ''FROM orders_copy'' @ [CHR 0x0A]
            @ ''ORDER BY id'')"
  by (simp add: example_defs)

subsection \<open>The ORDER BY list\<close>

text \<open>
  C2. Whenever \<open>generate_comparison_selects\<close> succeeds with \<open>order_by_keys\<close> set, both
  tables have key columns and both statements end with an ORDER BY clause over the same
  list: the source's key columns, or the target's when the source has none, filtered to
  the aligned columns in the order of that key list, and the first aligned column alone
  when nothing remains. With \<open>order_by_keys\<close> unset, both statements end after the table
  reference: no ORDER BY clause is emitted.
\<close>

theorem order_by_list_spec:
  assumes ok: "generate_comparison_selects s t ui ob d q = Inr (a, b)"
  defines "cols \<equiv> align_columns s t ui"
  defines "chosen \<equiv> (\<lambda>ks kt. if ks = [] then kt else (ks :: string list))"
  defines "filtered \<equiv> (\<lambda>ks kt. filter (\<lambda>k. k \<in> set cols) (chosen ks kt))"
  defines "ord \<equiv> (\<lambda>ks kt. if filtered ks kt = [] then [hd cols] else filtered ks kt)"
  shows "(ob \<longrightarrow>
            (\<exists>ks kt. key_columns s = Inr ks \<and> key_columns t = Inr kt
              \<and> a = select_line cols d q @ [CHR 0x0A] @ ''FROM '' @ table_reference s d q
                      @ [CHR 0x0A] @ ''ORDER BY '' @ join '', '' (map (quote q d) (ord ks kt))
              \<and> b = select_line cols d q @ [CHR 0x0A] @ ''FROM '' @ table_reference t d q
                      @ [CHR 0x0A] @ ''ORDER BY '' @ join '', '' (map (quote q d) (ord ks kt))))
       \<and> (\<not> ob \<longrightarrow>
            a = select_line cols d q @ [CHR 0x0A] @ ''FROM '' @ table_reference s d q
          \<and> b = select_line cols d q @ [CHR 0x0A] @ ''FROM '' @ table_reference t d q)"
proof -
  from generate_success [OF ok] obtain oc where
    ne: "cols \<noteq> []" and oc: "order_cols s t cols ob = Inr oc"
    and a: "a = build_select s cols oc d q" and b: "b = build_select t cols oc d q"
    by (auto simp add: cols_def)
  have t1: "take 1 cols = [hd cols]" using ne by (cases cols) simp_all
  have on: "\<exists>ks kt. key_columns s = Inr ks \<and> key_columns t = Inr kt \<and> oc = Some (ord ks kt)"
    if ob
    using that oc ne t1
    by (auto simp add: order_cols_def ord_def filtered_def chosen_def Let_def
        split: sum.splits if_splits)
  have ord_ne: "ord ks kt \<noteq> []" for ks kt by (simp add: ord_def)
  have off: "oc = None" if "\<not> ob"
    using that oc by (simp add: order_cols_def)
  show ?thesis
  proof (intro conjI impI)
    assume ob
    from on [OF this] obtain ks kt where
      k: "key_columns s = Inr ks" "key_columns t = Inr kt" and o: "oc = Some (ord ks kt)"
      by blast
    show "\<exists>ks kt. key_columns s = Inr ks \<and> key_columns t = Inr kt
            \<and> a = select_line cols d q @ [CHR 0x0A] @ ''FROM '' @ table_reference s d q
                    @ [CHR 0x0A] @ ''ORDER BY '' @ join '', '' (map (quote q d) (ord ks kt))
            \<and> b = select_line cols d q @ [CHR 0x0A] @ ''FROM '' @ table_reference t d q
                    @ [CHR 0x0A] @ ''ORDER BY '' @ join '', '' (map (quote q d) (ord ks kt))"
      using k a b o ord_ne [of ks kt]
      by (simp add: build_select_parts order_by_suffix_def)
  next
    assume "\<not> ob"
    from off [OF this] a
    show "a = select_line cols d q @ [CHR 0x0A] @ ''FROM '' @ table_reference s d q"
      by (simp add: build_select_parts order_by_suffix_def)
  next
    assume "\<not> ob"
    from off [OF this] b
    show "b = select_line cols d q @ [CHR 0x0A] @ ''FROM '' @ table_reference t d q"
      by (simp add: build_select_parts order_by_suffix_def)
  qed
qed

theorem order_by_list_spec_witness:
  "generate_comparison_selects example_source example_target True True ''ansi'' False =
     Inr (''SELECT id, name'' @ [CHR 0x0A] @ ''FROM sales.orders'' @ [CHR 0x0A]
            @ ''ORDER BY id'',
          ''SELECT id, name'' @ [CHR 0x0A] @ ''FROM orders_copy'' @ [CHR 0x0A]
            @ ''ORDER BY id'')
   \<and> key_columns example_source = Inr [''id'']
   \<and> key_columns example_target = Inr [''id'']
   \<and> ''SELECT id, name'' @ [CHR 0x0A] @ ''FROM sales.orders'' @ [CHR 0x0A] @ ''ORDER BY id''
       = select_line [''id'', ''name''] ''ansi'' False @ [CHR 0x0A] @ ''FROM ''
           @ table_reference example_source ''ansi'' False @ [CHR 0x0A] @ ''ORDER BY ''
           @ join '', '' (map (quote False ''ansi'') [''id''])"
  using order_by_list_spec [OF example_run] example_run
  by (simp add: example_defs)

subsection \<open>Failure of the generation\<close>

text \<open>
  C3, as the code has it. \<open>generate_comparison_selects\<close> raises its \<open>ValueError\<close>
  exactly when the aligned column list is empty, and the message prints the full column
  name list of the source and of the target. When the aligned list is not empty, the
  call returns two SQL strings provided that \<open>order_by_keys\<close> is unset or that
  \<open>primary_key_columns\<close> of neither table is a non-zero number or \<open>True\<close>; this holds in
  particular for tables whose \<open>primary_key_columns\<close> has its annotated type, \<open>None\<close> or
  a list.
\<close>

theorem generate_failure_spec:
  "((\<exists>m. generate_comparison_selects s t ui ob d q = Inl (ValueError m))
      \<longleftrightarrow> align_columns s t ui = [])
   \<and> (align_columns s t ui = [] \<longrightarrow>
        generate_comparison_selects s t ui ob d q =
          Inl (ValueError (''No common columns between source and target. Source: ''
                 @ repr_list (column_names s) @ '', Target: '' @ repr_list (column_names t))))
   \<and> (align_columns s t ui \<noteq> []
        \<and> (\<not> ob \<or> keys_readable (primary_key_columns s) \<and> keys_readable (primary_key_columns t))
      \<longrightarrow> (\<exists>a b. generate_comparison_selects s t ui ob d q = Inr (a, b)))
   \<and> ((primary_key_columns s = JNull \<or> (\<exists>xs. primary_key_columns s = JArr xs))
        \<and> (primary_key_columns t = JNull \<or> (\<exists>xs. primary_key_columns t = JArr xs))
      \<longrightarrow> (isl (generate_comparison_selects s t ui ob d q) \<longleftrightarrow> align_columns s t ui = []))"
proof -
  have oc_err: "order_cols s t c ob = Inl e \<Longrightarrow> e = TypeError" for c e
    by (auto simp add: order_cols_def Let_def dest: key_columns_error
        split: if_splits sum.splits)
  have oc_ok: "\<exists>oc. order_cols s t c ob = Inr oc"
    if "\<not> ob \<or> keys_readable (primary_key_columns s) \<and> keys_readable (primary_key_columns t)"
    for c
  proof (cases ob)
    case False
    then show ?thesis by (simp add: order_cols_def)
  next
    case True
    with that have "\<not> isl (key_columns s)" "\<not> isl (key_columns t)"
      by (simp_all add: key_columns_raises)
    then obtain ks kt where "key_columns s = Inr ks" "key_columns t = Inr kt"
      by (cases "key_columns s"; cases "key_columns t") simp_all
    then show ?thesis by (simp add: order_cols_def Let_def)
  qed
  have c1: "(\<exists>m. generate_comparison_selects s t ui ob d q = Inl (ValueError m))
      \<longleftrightarrow> align_columns s t ui = []"
    by (auto simp add: generate_comparison_selects_def Let_def dest: oc_err
        split: sum.splits)
  have c2: "align_columns s t ui = [] \<longrightarrow>
        generate_comparison_selects s t ui ob d q =
          Inl (ValueError (''No common columns between source and target. Source: ''
                 @ repr_list (column_names s) @ '', Target: '' @ repr_list (column_names t)))"
    by (simp add: generate_comparison_selects_def Let_def)
  have c3: "\<exists>a b. generate_comparison_selects s t ui ob d q = Inr (a, b)"
    if "align_columns s t ui \<noteq> []"
      and "\<not> ob \<or> keys_readable (primary_key_columns s) \<and> keys_readable (primary_key_columns t)"
    using that(1) oc_ok [OF that(2), of "align_columns s t ui"]
    by (auto simp add: generate_comparison_selects_def Let_def)
  have c4: "isl (generate_comparison_selects s t ui ob d q) \<longleftrightarrow> align_columns s t ui = []"
    if "primary_key_columns s = JNull \<or> (\<exists>xs. primary_key_columns s = JArr xs)"
      and "primary_key_columns t = JNull \<or> (\<exists>xs. primary_key_columns t = JArr xs)"
  proof -
    from that have "keys_readable (primary_key_columns s)" "keys_readable (primary_key_columns t)"
      by auto
    then show ?thesis
      using c2 c3 by (cases "align_columns s t ui = []") auto
  qed
  from c1 c2 c3 c4 show ?thesis by blast
qed

theorem generate_failure_spec_witness:
  "align_columns example_source example_target True \<noteq> []
   \<and> (\<exists>a b. generate_comparison_selects example_source example_target True True ''ansi'' False
              = Inr (a, b))
   \<and> align_columns example_target (example_target\<lparr>columns := []\<rparr>) True = []
   \<and> generate_comparison_selects example_target (example_target\<lparr>columns := []\<rparr>) True True
        ''ansi'' False
      = Inl (ValueError (''No common columns between source and target. Source: ''
              @ repr_list [''id'', ''name''] @ '', Target: '' @ repr_list []))"
  using generate_failure_spec [of example_source example_target True True "''ansi''" False]
    generate_failure_spec [of example_target "example_target\<lparr>columns := []\<rparr>" True True
      "''ansi''" False]
  by (simp add: example_source_def example_target_def column_def align_columns_def
      column_names_def)

text \<open>
  The claim itself says that the empty aligned list is the only failure for every pair of
  loaded tables. The loader stores \<open>primary_key\<close> as it is given: the first document
  below loads, its table shares the column \<open>id\<close> with the table of the second, and the
  generation raises \<open>TypeError\<close> when it reads the key columns.
\<close>

theorem generate_type_error_counterexample:
  "load_document
     (JObj [(''table_name'', JStr ''s''), (''columns'', JArr [JObj [(''name'', JStr ''id'')]]),
            (''primary_key'', JNum 1)])
     = Inr \<lparr>table_name = ''s'', schema_name = JNull,
            columns = [\<lparr>name = ''id'', data_type = JNull, nullable = JBool True,
                        is_primary_key = False\<rparr>],
            primary_key_columns = JNum 1\<rparr>
   \<and> load_document
       (JObj [(''table_name'', JStr ''t''), (''columns'', JArr [JObj [(''name'', JStr ''id'')]])])
     = Inr \<lparr>table_name = ''t'', schema_name = JNull,
            columns = [\<lparr>name = ''id'', data_type = JNull, nullable = JBool True,
                        is_primary_key = False\<rparr>],
            primary_key_columns = JNull\<rparr>
   \<and> align_columns
       \<lparr>table_name = ''s'', schema_name = JNull,
        columns = [\<lparr>name = ''id'', data_type = JNull, nullable = JBool True,
                    is_primary_key = False\<rparr>],
        primary_key_columns = JNum 1\<rparr>
       \<lparr>table_name = ''t'', schema_name = JNull,
        columns = [\<lparr>name = ''id'', data_type = JNull, nullable = JBool True,
                    is_primary_key = False\<rparr>],
        primary_key_columns = JNull\<rparr> True = [''id'']
   \<and> generate_comparison_selects
       \<lparr>table_name = ''s'', schema_name = JNull,
        columns = [\<lparr>name = ''id'', data_type = JNull, nullable = JBool True,
                    is_primary_key = False\<rparr>],
        primary_key_columns = JNum 1\<rparr>
       \<lparr>table_name = ''t'', schema_name = JNull,
        columns = [\<lparr>name = ''id'', data_type = JNull, nullable = JBool True,
                    is_primary_key = False\<rparr>],
        primary_key_columns = JNull\<rparr> True True ''ansi'' False = Inl TypeError"
  by (simp add: load_document_def TableMetadata_from_dict_def ColumnMetadata_from_dict_def
      has_key_def get_def get_default_def por_def strip_def py_isspace_def
      generate_comparison_selects_def align_columns_def column_names_def order_cols_def
      key_columns_def Let_def)

subsection \<open>Key columns\<close>

text \<open>
  C4. \<open>key_columns\<close> is resolved in this order: an explicit, non-empty
  \<open>primary_key_columns\<close> list gives its entries that are column names of the table, in
  the order of the explicit list; otherwise the names of the columns flagged
  \<open>is_primary_key\<close>, in column order, when there is one; otherwise the first column name
  alone; otherwise the empty list. A table with exactly one column and no explicit
  primary key has that column's name as its only key column.
\<close>

theorem key_columns_spec:
  fixes t :: TableMetadata
  defines "flagged \<equiv> map name (filter is_primary_key (columns t))"
  shows "(\<forall>p ps. primary_key_columns t = JArr (map JStr (p # ps)) \<longrightarrow>
            key_columns t = Inr (filter (\<lambda>c. c \<in> set (column_names t)) (p # ps)))
       \<and> (\<not> truthy (primary_key_columns t) \<and> flagged \<noteq> [] \<longrightarrow> key_columns t = Inr flagged)
       \<and> (\<forall>c cs. \<not> truthy (primary_key_columns t) \<and> flagged = [] \<and> columns t = c # cs
            \<longrightarrow> key_columns t = Inr [name c])
       \<and> (\<not> truthy (primary_key_columns t) \<and> columns t = [] \<longrightarrow> key_columns t = Inr [])
       \<and> (\<forall>c. primary_key_columns t = JNull \<and> columns t = [c] \<longrightarrow> key_columns t = Inr [name c])"
proof -
  have a: "key_columns t = Inr (filter (\<lambda>c. c \<in> set (column_names t)) (p # ps))"
    if pk: "primary_key_columns t = JArr (map JStr (p # ps))" for p ps
  proof -
    have tr: "truthy (primary_key_columns t)" by (simp add: pk)
    have it: "iter (primary_key_columns t) = Inr (map JStr (p # ps))" by (simp add: pk)
    have "key_columns t = Inr [c. JStr c \<leftarrow> map JStr (p # ps), c \<in> set (column_names t)]"
      unfolding key_columns_def using tr it by (simp only: if_True sum.case)
    then show ?thesis by (simp only: names_among_strings)
  qed
  have b: "\<not> truthy (primary_key_columns t) \<Longrightarrow> key_columns t =
      (if flagged \<noteq> [] then Inr flagged
       else if columns t \<noteq> [] then Inr (take 1 (column_names t)) else Inr [])"
    by (simp add: key_columns_def flagged_def column_names_def Let_def)
  show ?thesis
    using a b by (auto simp add: column_names_def flagged_def)
qed

theorem key_columns_spec_witness:
  "key_columns example_source = Inr [''id'']
   \<and> key_columns example_target = Inr [''id'']
   \<and> key_columns
       (example_target\<lparr>primary_key_columns := JArr [JStr ''name'', JStr ''zip'', JStr ''id'']\<rparr>)
       = Inr [''name'', ''id'']
   \<and> key_columns (example_target\<lparr>columns := []\<rparr>) = Inr []
   \<and> key_columns (example_target\<lparr>columns := [column ''only'' False]\<rparr>) = Inr [''only'']"
  using key_columns_spec [of example_source] key_columns_spec [of example_target]
    key_columns_spec
      [of "example_target\<lparr>primary_key_columns := JArr [JStr ''name'', JStr ''zip'', JStr ''id'']\<rparr>",
       THEN conjunct1, rule_format, of "''name''" "[''zip'', ''id'']"]
    key_columns_spec [of "example_target\<lparr>columns := []\<rparr>"]
    key_columns_spec [of "example_target\<lparr>columns := [column ''only'' False]\<rparr>"]
  by (simp add: example_source_def example_target_def column_def column_names_def)

subsection \<open>The table reference after FROM\<close>

text \<open>
  C5. The table reference of \<open>build_select\<close> is \<open>"schema"."table"\<close> when quoted
  identifiers are requested and the table has a schema; the bare table name when quoted
  identifiers are requested and the table has no schema; \<open>[schema].[table]\<close> when quoted
  identifiers are not requested, the dialect is \<open>sqlserver\<close> and the table has a schema;
  and the unquoted \<open>schema.table\<close>, or the bare table name, in every other case. A table
  has a schema when \<open>schema_name\<close> is a non-empty string, and none when \<open>schema_name\<close>
  is falsy.
\<close>

theorem table_reference_spec:
  fixes table :: TableMetadata
  defines "render \<equiv> (\<lambda>ref cols oc dialect q.
     select_line cols dialect q @ [CHR 0x0A] @ ''FROM '' @ ref @ order_by_suffix oc dialect q)"
  shows "(\<forall>sch. q \<and> schema_name table = JStr sch \<and> sch \<noteq> [] \<longrightarrow>
            build_select table cols oc dialect q =
              render ([CHR 0x22] @ sch @ [CHR 0x22] @ ''.''
                        @ [CHR 0x22] @ table_name table @ [CHR 0x22])
                cols oc dialect q)
       \<and> (q \<and> \<not> truthy (schema_name table) \<longrightarrow>
            build_select table cols oc dialect q = render (table_name table) cols oc dialect q)
       \<and> (\<forall>sch. \<not> q \<and> dialect = ''sqlserver'' \<and> schema_name table = JStr sch \<and> sch \<noteq> []
            \<longrightarrow> build_select table cols oc dialect q =
                  render (''['' @ sch @ ''].['' @ table_name table @ '']'') cols oc dialect q)
       \<and> (\<forall>sch. \<not> q \<and> dialect \<noteq> ''sqlserver'' \<and> schema_name table = JStr sch \<and> sch \<noteq> []
            \<longrightarrow> build_select table cols oc dialect q =
                  render (sch @ ''.'' @ table_name table) cols oc dialect q)
       \<and> (\<not> q \<and> \<not> truthy (schema_name table) \<longrightarrow>
            build_select table cols oc dialect q = render (table_name table) cols oc dialect q)"
  by (auto simp add: build_select_parts table_reference_def qualified_name_def render_def)

theorem table_reference_spec_witness:
  "build_select example_source [''id''] None ''mysql'' True
     = ''SELECT '' @ [CHR 0x22] @ ''id'' @ [CHR 0x22, CHR 0x0A] @ ''FROM ''
         @ [CHR 0x22] @ ''sales'' @ [CHR 0x22] @ ''.'' @ [CHR 0x22] @ ''orders'' @ [CHR 0x22]
   \<and> build_select example_target [''id''] None ''mysql'' True
     = ''SELECT '' @ [CHR 0x22] @ ''id'' @ [CHR 0x22, CHR 0x0A] @ ''FROM orders_copy''
   \<and> build_select example_source [''id''] None ''sqlserver'' False
     = ''SELECT [id]'' @ [CHR 0x0A] @ ''FROM [sales].[orders]''
   \<and> build_select example_source [''id''] None ''mysql'' False
     = ''SELECT '' @ [CHR 0x60] @ ''id'' @ [CHR 0x60, CHR 0x0A] @ ''FROM sales.orders''
   \<and> build_select example_target [''id''] None ''sqlserver'' False
     = ''SELECT [id]'' @ [CHR 0x0A] @ ''FROM orders_copy''"
  using table_reference_spec [of True example_source "[''id'']" None "''mysql''"]
    table_reference_spec [of True example_target "[''id'']" None "''mysql''"]
    table_reference_spec [of False example_source "[''id'']" None "''sqlserver''"]
    table_reference_spec [of False example_source "[''id'']" None "''mysql''"]
    table_reference_spec [of False example_target "[''id'']" None "''sqlserver''"]
  by (simp add: example_source_def example_target_def column_def select_line_def
      order_by_suffix_def quote_def quote_identifier_def)

subsection \<open>Symmetry of the two statements\<close>

text \<open>
  C6. Whenever \<open>generate_comparison_selects\<close> succeeds, the two statements have the same
  SELECT line and the same ORDER BY suffix, character for character, and differ only in
  the table reference after \<open>FROM\<close>.
\<close>

theorem order_symmetric:
  assumes "generate_comparison_selects s t ui ob d q = Inr (a, b)"
  shows "\<exists>sel ord oc.
           a = sel @ [CHR 0x0A] @ ''FROM '' @ table_reference s d q @ ord
         \<and> b = sel @ [CHR 0x0A] @ ''FROM '' @ table_reference t d q @ ord
         \<and> sel = select_line (align_columns s t ui) d q
         \<and> order_cols s t (align_columns s t ui) ob = Inr oc
         \<and> ord = order_by_suffix oc d q"
  using generate_success [OF assms] by (auto simp add: build_select_parts)

theorem order_symmetric_witness:
  "\<exists>sel ord.
      ''SELECT id, name'' @ [CHR 0x0A] @ ''FROM sales.orders'' @ [CHR 0x0A] @ ''ORDER BY id''
        = sel @ [CHR 0x0A] @ ''FROM '' @ table_reference example_source ''ansi'' False @ ord
    \<and> ''SELECT id, name'' @ [CHR 0x0A] @ ''FROM orders_copy'' @ [CHR 0x0A] @ ''ORDER BY id''
        = sel @ [CHR 0x0A] @ ''FROM '' @ table_reference example_target ''ansi'' False @ ord
    \<and> sel = ''SELECT id, name'' \<and> ord = [CHR 0x0A] @ ''ORDER BY id''"
  using order_symmetric [OF example_run]
  by (simp add: example_defs)

subsection \<open>Evaluating the loader\<close>

lemmas loader_defs =
  TableMetadata_load_def load_document_def TableMetadata_from_dict_def
  ColumnMetadata_from_dict_def has_key_def get_def get_default_def por_def strip_def
  py_isspace_def Let_def

subsection \<open>The columns source of a document\<close>

text \<open>
  C7, as the code has it. Loading a JSON object that has neither a \<open>columns\<close> nor a
  \<open>column_names\<close> field fails with the malformed-input error, whatever else the object
  holds: a \<open>primary_key\<close> or \<open>primary_key_columns\<close> array is not a columns source.
\<close>

theorem load_requires_columns_source:
  assumes "files path = Some (JObj d)"
    and "\<not> has_key d ''columns''" and "\<not> has_key d ''column_names''"
  shows "TableMetadata_load files path
           = Inl (ValueError (''Metadata must contain 'columns' or 'column_names'' @ [CHR 0x27]))"
  using assms by (simp add: TableMetadata_load_def load_document_def)

theorem load_requires_columns_source_witness:
  "TableMetadata_load
     (\<lambda>p. Some (JObj [(''name'', JStr ''orders''), (''primary_key_columns'', JArr [JStr ''id''])]))
     ''orders.json''
   = Inl (ValueError (''Metadata must contain 'columns' or 'column_names'' @ [CHR 0x27]))"
  using load_requires_columns_source
    [of "\<lambda>p. Some (JObj [(''name'', JStr ''orders''), (''primary_key_columns'', JArr [JStr ''id''])])"
        "''orders.json''"
        "[(''name'', JStr ''orders''), (''primary_key_columns'', JArr [JStr ''id''])]"]
  by (simp add: has_key_def)

text \<open>
  The claim itself says that such a document loads. An object with a table name and a
  \<open>primary_key\<close> array only is refused.
\<close>

theorem load_primary_key_only_counterexample:
  "TableMetadata_load
     (\<lambda>p. if p = ''t.json''
          then Some (JObj [(''table_name'', JStr ''t''), (''primary_key'', JArr [JStr ''id''])])
          else None)
     ''t.json''
   = Inl (ValueError (''Metadata must contain 'columns' or 'column_names'' @ [CHR 0x27]))"
  by (simp add: TableMetadata_load_def load_document_def has_key_def)

subsection \<open>Field aliases\<close>

lemma table_name_of_from_dict:
  assumes "TableMetadata_from_dict d = Inr t"
  shows "table_name t
           = strip (py_str (por (por (get d ''table_name'') (get d ''table'')) (get d ''name'')))"
    and "truthy (por (por (get d ''table_name'') (get d ''table'')) (get d ''name''))"
  using assms
  by (auto simp add: TableMetadata_from_dict_def Let_def split: if_splits sum.splits)

lemma column_of_from_dict:
  "ColumnMetadata_from_dict (JObj c) =
     (if truthy (por (get c ''name'') (get c ''column_name''))
      then Inr \<lparr>name = strip (py_str (por (get c ''name'') (get c ''column_name''))),
                data_type = por (get c ''data_type'') (get c ''type''),
                nullable = get_default c ''nullable'' (JBool True),
                is_primary_key = truthy (get_default c ''is_primary_key'' (JBool False))\<rparr>
      else Inl (ValueError (''Column must have 'name' or 'column_name'' @ [CHR 0x27])))"
  by (simp add: ColumnMetadata_from_dict_def Let_def)

text \<open>
  C8, as the code has it. The aliases are tried in order and the first one with a truthy
  value wins; a value that is missing, null or the empty string is passed over. In every
  loaded table, a truthy \<open>table_name\<close> gives the table name whatever \<open>table\<close> and
  \<open>name\<close> hold; when \<open>table_name\<close> is not truthy a truthy \<open>table\<close> wins over \<open>name\<close>;
  when neither is, \<open>name\<close> is taken, and it is truthy. A column object with a truthy
  \<open>name\<close> loads with that name whatever \<open>column_name\<close> holds, and one whose \<open>name\<close> is
  not truthy loads with a truthy \<open>column_name\<close>. The stored name is \<open>str\<close> of the value,
  which for a string is the string itself, with surrounding whitespace removed; the last
  three parts say so for string values, and that an empty string is passed over.
\<close>

theorem first_truthy_alias_wins:
  "(TableMetadata_from_dict d = Inr t \<and> truthy (get d ''table_name'')
      \<longrightarrow> table_name t = strip (py_str (get d ''table_name'')))
   \<and> (TableMetadata_from_dict d = Inr t \<and> \<not> truthy (get d ''table_name'')
        \<and> truthy (get d ''table'')
      \<longrightarrow> table_name t = strip (py_str (get d ''table'')))
   \<and> (TableMetadata_from_dict d = Inr t \<and> \<not> truthy (get d ''table_name'')
        \<and> \<not> truthy (get d ''table'')
      \<longrightarrow> table_name t = strip (py_str (get d ''name'')) \<and> truthy (get d ''name''))
   \<and> (truthy (get c ''name'')
      \<longrightarrow> (\<exists>col. ColumnMetadata_from_dict (JObj c) = Inr col
                 \<and> name col = strip (py_str (get c ''name''))))
   \<and> (\<not> truthy (get c ''name'') \<and> truthy (get c ''column_name'')
      \<longrightarrow> (\<exists>col. ColumnMetadata_from_dict (JObj c) = Inr col
                 \<and> name col = strip (py_str (get c ''column_name''))))
   \<and> (TableMetadata_from_dict d = Inr t \<and> get d ''table_name'' = JStr s \<and> s \<noteq> []
      \<longrightarrow> table_name t = strip s)
   \<and> (TableMetadata_from_dict d = Inr t \<and> get d ''table_name'' = JStr []
        \<and> get d ''table'' = JStr s \<and> s \<noteq> []
      \<longrightarrow> table_name t = strip s)
   \<and> (get c ''name'' = JStr [] \<and> get c ''column_name'' = JStr s \<and> s \<noteq> []
      \<longrightarrow> (\<exists>col. ColumnMetadata_from_dict (JObj c) = Inr col \<and> name col = strip s))"
  using table_name_of_from_dict [of d t]
  by (auto simp add: por_def column_of_from_dict)

theorem first_truthy_alias_wins_witness:
  "TableMetadata_from_dict
     [(''name'', JStr ''n''), (''table'', JStr ''t''), (''table_name'', JStr '' orders ''),
      (''columns'', JArr [JObj [(''column_name'', JStr ''c''), (''name'', JStr ''id'')]])]
   = Inr \<lparr>table_name = ''orders'', schema_name = JNull,
          columns = [\<lparr>name = ''id'', data_type = JNull, nullable = JBool True,
                      is_primary_key = False\<rparr>],
          primary_key_columns = JNull\<rparr>
   \<and> ColumnMetadata_from_dict (JObj [(''column_name'', JStr ''c''), (''name'', JStr '''')])
     = Inr \<lparr>name = ''c'', data_type = JNull, nullable = JBool True, is_primary_key = False\<rparr>"
  using first_truthy_alias_wins
    [of "[(''name'', JStr ''n''), (''table'', JStr ''t''), (''table_name'', JStr '' orders ''),
          (''columns'', JArr [JObj [(''column_name'', JStr ''c''), (''name'', JStr ''id'')]])]"
        "\<lparr>table_name = ''orders'', schema_name = JNull,
          columns = [\<lparr>name = ''id'', data_type = JNull, nullable = JBool True,
                      is_primary_key = False\<rparr>],
          primary_key_columns = JNull\<rparr>"
        "[(''column_name'', JStr ''c''), (''name'', JStr '''')]" "'' orders ''"]
  by (simp add: loader_defs)

text \<open>
  The claim itself says that the first alias that is present wins even with an empty
  string as its value. A \<open>table_name\<close> that is present and empty is passed over for
  \<open>table\<close>.
\<close>

theorem empty_table_name_counterexample:
  "TableMetadata_from_dict
     [(''table_name'', JStr ''''), (''table'', JStr ''t''), (''columns'', JArr [])]
   = Inr \<lparr>table_name = ''t'', schema_name = JNull, columns = [], primary_key_columns = JNull\<rparr>"
  by (simp add: loader_defs)

subsection \<open>Column names after loading\<close>

text \<open>
  C9 says that every column name of a loaded table is a non-empty string. A column whose
  \<open>name\<close> is a single space passes the emptiness test, which runs before the name is
  stripped, and the table loads with a column whose name is the empty string.
\<close>

theorem whitespace_name_loads_empty:
  "load_document
     (JObj [(''table_name'', JStr ''t''), (''columns'', JArr [JObj [(''name'', JStr '' '')]])])
   = Inr \<lparr>table_name = ''t'', schema_name = JNull,
          columns = [\<lparr>name = [], data_type = JNull, nullable = JBool True,
                      is_primary_key = False\<rparr>],
          primary_key_columns = JNull\<rparr>"
  by (simp add: loader_defs)

subsection \<open>A document with both \<open>columns\<close> and \<open>column_names\<close>\<close>

lemma map_of_filter_key:
  "map_of (filter (\<lambda>kv. fst kv \<noteq> k) d) k' = (if k' = k then None else map_of d k')"
  by (induction d) auto

lemma get_filter_key:
  "k' \<noteq> k \<Longrightarrow> get (filter (\<lambda>kv. fst kv \<noteq> k) d) k' = get d k'"
  "k' \<noteq> k \<Longrightarrow> get_default (filter (\<lambda>kv. fst kv \<noteq> k) d) k' v = get_default d k' v"
  by (simp_all add: get_def get_default_def map_of_filter_key)

lemma wrapped_names_load:
  "list_all truthy ns \<Longrightarrow>
   map_err ColumnMetadata_from_dict (map (\<lambda>n. JObj [(''name'', n)]) ns)
     = Inr (map (\<lambda>n. \<lparr>name = strip (py_str n), data_type = JNull, nullable = JBool True,
                       is_primary_key = False\<rparr>) ns)"
  by (induction ns)
     (simp_all add: ColumnMetadata_from_dict_def get_def get_default_def por_def)

text \<open>
  C10. When \<open>columns\<close> is a non-empty array, \<open>column_names\<close> is ignored: the document
  loads exactly as it does with \<open>column_names\<close> removed, and when it has a table name
  the table's columns are those that the entries of the \<open>columns\<close> array load as, or the
  load fails as the first entry that does not load fails. When \<open>columns\<close> is present
  and is the empty array, \<open>column_names\<close> is an array of truthy names and the document
  has a table name, the document loads and the table's columns are built from
  \<open>column_names\<close>, one column per name with only that name set.
\<close>

theorem columns_source_precedence:
  fixes d :: dict
  defines "named \<equiv> truthy (get d ''table_name'') \<or> truthy (get d ''table'')
                      \<or> truthy (get d ''name'')"
  shows
  "(get d ''columns'' = JArr (c # cs) \<longrightarrow>
      TableMetadata_from_dict d
        = TableMetadata_from_dict (filter (\<lambda>kv. fst kv \<noteq> ''column_names'') d))
   \<and> (get d ''columns'' = JArr (c # cs) \<and> named \<longrightarrow>
        (case map_err ColumnMetadata_from_dict (c # cs) of
           Inl e \<Rightarrow> TableMetadata_from_dict d = Inl e
         | Inr cms \<Rightarrow> (\<exists>t. TableMetadata_from_dict d = Inr t \<and> columns t = cms)))
   \<and> (map_of d ''columns'' = Some (JArr []) \<and> map_of d ''column_names'' = Some (JArr ns)
        \<and> list_all truthy ns \<and> named \<longrightarrow>
        (\<exists>t. TableMetadata_from_dict d = Inr t
           \<and> columns t = map (\<lambda>n. \<lparr>name = strip (py_str n), data_type = JNull,
                                     nullable = JBool True, is_primary_key = False\<rparr>) ns))"
proof (intro conjI impI)
  assume a: "get d ''columns'' = JArr (c # cs)"
  then have gd: "get_default d ''columns'' (JArr []) = JArr (c # cs)"
    by (auto simp add: get_def get_default_def split: option.splits)
  have gd': "get_default (filter (\<lambda>kv. fst kv \<noteq> ''column_names'') d) ''columns'' (JArr [])
               = JArr (c # cs)"
    using gd by (simp add: get_filter_key)
  show "TableMetadata_from_dict d
          = TableMetadata_from_dict (filter (\<lambda>kv. fst kv \<noteq> ''column_names'') d)"
    by (simp add: TableMetadata_from_dict_def gd gd' get_filter_key Let_def
        cong: sum.case_cong if_cong)
next
  assume "get d ''columns'' = JArr (c # cs) \<and> named"
  then have gd: "get_default d ''columns'' (JArr []) = JArr (c # cs)"
    and tn: "truthy (por (por (get d ''table_name'') (get d ''table'')) (get d ''name''))"
    by (auto simp add: get_def get_default_def por_def named_def split: option.splits)
  show "case map_err ColumnMetadata_from_dict (c # cs) of
          Inl e \<Rightarrow> TableMetadata_from_dict d = Inl e
        | Inr cms \<Rightarrow> (\<exists>t. TableMetadata_from_dict d = Inr t \<and> columns t = cms)"
    unfolding TableMetadata_from_dict_def Let_def gd using tn
    by (auto split: sum.splits)
next
  assume h: "map_of d ''columns'' = Some (JArr []) \<and>
             map_of d ''column_names'' = Some (JArr ns) \<and> list_all truthy ns \<and> named"
  then have gd: "get_default d ''columns'' (JArr []) = JArr []"
    and hk: "has_key d ''column_names''"
    and gn: "get d ''column_names'' = JArr ns"
    and tn: "truthy (por (por (get d ''table_name'') (get d ''table'')) (get d ''name''))"
    by (auto simp add: get_def get_default_def has_key_def por_def named_def)
  from h have la: "list_all truthy ns" by simp
  note w = wrapped_names_load [OF la]
  show "\<exists>t. TableMetadata_from_dict d = Inr t
          \<and> columns t = map (\<lambda>n. \<lparr>name = strip (py_str n), data_type = JNull,
                                    nullable = JBool True, is_primary_key = False\<rparr>) ns"
    unfolding TableMetadata_from_dict_def Let_def gd using tn
    by (simp add: hk gn w)
qed

theorem columns_source_precedence_witness:
  "TableMetadata_from_dict
     [(''table'', JStr ''t''), (''columns'', JArr [JObj [(''name'', JStr ''id'')]]),
      (''column_names'', JArr [JStr ''a'', JStr ''b''])]
   = TableMetadata_from_dict
       [(''table'', JStr ''t''), (''columns'', JArr [JObj [(''name'', JStr ''id'')]])]
   \<and> TableMetadata_from_dict
       [(''table'', JStr ''t''), (''columns'', JArr [JObj [(''name'', JStr ''id'')]])]
     = Inr \<lparr>table_name = ''t'', schema_name = JNull,
            columns = [\<lparr>name = ''id'', data_type = JNull, nullable = JBool True,
                        is_primary_key = False\<rparr>],
            primary_key_columns = JNull\<rparr>
   \<and> TableMetadata_from_dict
       [(''table'', JStr ''t''), (''columns'', JArr []),
        (''column_names'', JArr [JStr '' a '', JStr ''b''])]
     = Inr \<lparr>table_name = ''t'', schema_name = JNull,
            columns = [\<lparr>name = ''a'', data_type = JNull, nullable = JBool True,
                        is_primary_key = False\<rparr>,
                       \<lparr>name = ''b'', data_type = JNull, nullable = JBool True,
                        is_primary_key = False\<rparr>],
            primary_key_columns = JNull\<rparr>"
  using columns_source_precedence
    [of "[(''table'', JStr ''t''), (''columns'', JArr [JObj [(''name'', JStr ''id'')]]),
          (''column_names'', JArr [JStr ''a'', JStr ''b''])]"
        "JObj [(''name'', JStr ''id'')]" "[]" "[]"]
    columns_source_precedence
    [of "[(''table'', JStr ''t''), (''columns'', JArr []),
          (''column_names'', JArr [JStr '' a '', JStr ''b''])]"
        "JNull" "[]" "[JStr '' a '', JStr ''b'']"]
  by (simp add: loader_defs)

end
